theory Spec2Isabelle
  imports Main
begin

section \<open>Values exchanged with the MCP library\<close>

text \<open>
  Values that come out of \<^verbatim>\<open>json.load\<close> / \<^verbatim>\<open>json.loads\<close> and the dictionaries the
  executor builds. A Python \<^verbatim>\<open>dict\<close> is an association list in insertion order with
  distinct keys; Python's \<^verbatim>\<open>None\<close> is \<open>JNull\<close>.
\<close>

datatype json =
    JNull
  | JBool bool
  | JInt int
  | JStr string
  | JList "json list"
  | JObj "(string \<times> json) list"

text \<open>Exceptions: the class and the text that \<^verbatim>\<open>str(e)\<close> gives.\<close>

datatype exn_class = KeyError | TypeError | AttributeError | ImportError | ValueError | LibraryError

datatype exn = Exn exn_class string

fun exn_str :: "exn \<Rightarrow> string" where
  "exn_str (Exn c m) = m"

text \<open>\<^verbatim>\<open>obj[key]\<close> with a string key, on a value loaded from JSON.\<close>

fun py_getitem :: "json \<Rightarrow> string \<Rightarrow> exn + json" where
  "py_getitem (JObj kv) k =
     (case map_of kv k of
        Some v \<Rightarrow> Inr v
      | None \<Rightarrow> Inl (Exn KeyError ([CHR 0x27] @ k @ [CHR 0x27])))"
| "py_getitem (JList xs) k = Inl (Exn TypeError ''list indices must be integers or slices, not str'')"
| "py_getitem (JStr s) k = Inl (Exn TypeError ''string indices must be integers'')"
| "py_getitem j k = Inl (Exn TypeError ''object is not subscriptable'')"

text \<open>\<^verbatim>\<open>obj.get(key, default)\<close>: only a dictionary has the method.\<close>

fun py_get :: "json \<Rightarrow> string \<Rightarrow> json \<Rightarrow> exn + json" where
  "py_get (JObj kv) k d = (case map_of kv k of Some v \<Rightarrow> Inr v | None \<Rightarrow> Inr d)"
| "py_get j k d = Inl (Exn AttributeError ''object has no attribute get'')"

text \<open>
  The library's \<^verbatim>\<open>Tool\<close> entries of a \<^verbatim>\<open>list_tools\<close> response
  (\<^verbatim>\<open>tool.name\<close>, \<^verbatim>\<open>tool.description\<close>, \<^verbatim>\<open>tool.inputSchema\<close>); a description may
  be \<^verbatim>\<open>None\<close>.
\<close>

record tool =
  name :: string
  description :: "string option"
  inputSchema :: json

text \<open>
  Modelled from the spec: the items of a tool call's result, "each item either textual
  content or an opaque structured value". \<open>TextItem\<close> is an item with a \<^verbatim>\<open>text\<close>
  attribute, \<open>StructuredItem\<close> one whose \<^verbatim>\<open>__dict__\<close> can be written as JSON, and
  \<open>OpaqueItem\<close> one whose \<^verbatim>\<open>__dict__\<close> holds a value \<^verbatim>\<open>json.dumps\<close> rejects.
\<close>

datatype content_item = TextItem string | StructuredItem json | OpaqueItem

text \<open>
  Modelled from the spec: the response of the session's \<^verbatim>\<open>call_tool\<close>. \<open>isError\<close> is
  the protocol's flag of a "protocol-level success, tool-level failure" response.
\<close>

record call_tool_result =
  content :: "content_item list"
  isError :: bool

section \<open>The environment: the mcp library and the server behind it\<close>

type_synonym stream = nat

text \<open>\<^verbatim>\<open>ClientSession(read_stream, write_stream)\<close>: a session is the pair it wraps.\<close>

datatype client_session = ClientSession stream stream

text \<open>\<^verbatim>\<open>StdioServerParameters(command=..., args=..., env=...)\<close>.\<close>

record server_params =
  command :: json
  args :: json
  env :: json

text \<open>
  Every call the executor makes, in order: \<open>Connect\<close> marks an entry into
  \<^verbatim>\<open>MCPExecutor.connect\<close>, the others are the calls into the library.
\<close>

datatype event =
    Connect
  | Spawn server_params
  | Initialize client_session
  | ListTools client_session
  | CallTool client_session json json
  | Aexit client_session

text \<open>
  The library is a parameter: each of its functions answers from the calls made so far
  and its arguments, with a value or an exception. \<open>stdio_client\<close> stands for
  building the parameters and awaiting \<^verbatim>\<open>stdio_client(server_params)\<close>.
\<close>

record world =
  stdio_client :: "event list \<Rightarrow> server_params \<Rightarrow> exn + (stream \<times> stream)"
  session_initialize :: "event list \<Rightarrow> client_session \<Rightarrow> exn + unit"
  session_list_tools :: "event list \<Rightarrow> client_session \<Rightarrow> exn + tool list"
  session_call_tool :: "event list \<Rightarrow> client_session \<Rightarrow> json \<Rightarrow> json \<Rightarrow> exn + call_tool_result"
  session_aexit :: "event list \<Rightarrow> client_session \<Rightarrow> exn + unit"

section \<open>MCPExecutor\<close>

text \<open>The three attributes set by \<^verbatim>\<open>__init__\<close>, and the calls made so far.\<close>

record executor =
  server_config :: json
  session :: "client_session option"
  stdio_transport :: "(stream \<times> stream) option"
  trace :: "event list"

definition init :: "bool \<Rightarrow> json \<Rightarrow> exn + executor" where
  "init has_mcp cfg =
     (if \<not> has_mcp
      then Inl (Exn ImportError ''mcp package is required. Install with: pip install mcp'')
      else Inr \<lparr>server_config = cfg, session = None, stdio_transport = None, trace = []\<rparr>)"

definition log :: "event \<Rightarrow> executor \<Rightarrow> executor" where
  "log ev s = s\<lparr>trace := trace s @ [ev]\<rparr>"

definition connect :: "world \<Rightarrow> executor \<Rightarrow> (exn + unit) \<times> executor" where
  "connect w s0 =
     (let s = log Connect s0 in
      case py_getitem (server_config s) ''command'' of
        Inl e \<Rightarrow> (Inl e, s)
      | Inr c \<Rightarrow>
     (case py_get (server_config s) ''args'' (JList []) of
        Inl e \<Rightarrow> (Inl e, s)
      | Inr a \<Rightarrow>
     (case py_get (server_config s) ''env'' JNull of
        Inl e \<Rightarrow> (Inl e, s)
      | Inr ev \<Rightarrow>
     (let server_params = \<lparr>command = c, args = a, env = ev\<rparr> in
      case stdio_client w (trace s) server_params of
        Inl e \<Rightarrow> (Inl e, log (Spawn server_params) s)
      | Inr (read_stream, write_stream) \<Rightarrow>
     (let s1 = (log (Spawn server_params) s)
                 \<lparr>stdio_transport := Some (read_stream, write_stream),
                  session := Some (ClientSession read_stream write_stream)\<rparr> in
      case session_initialize w (trace s1) (ClientSession read_stream write_stream) of
        Inl e \<Rightarrow> (Inl e, log (Initialize (ClientSession read_stream write_stream)) s1)
      | Inr u \<Rightarrow> (Inr (), log (Initialize (ClientSession read_stream write_stream)) s1))))))"

text \<open>\<^verbatim>\<open>if not self.session: await self.connect()\<close>, the first statement of each operation.\<close>

abbreviation lazy_connect :: "world \<Rightarrow> executor \<Rightarrow> (exn + unit) \<times> executor" where
  "lazy_connect w s \<equiv> (if session s = None then connect w s else (Inr (), s))"

text \<open>\<^verbatim>\<open>self.session.m(...)\<close> when \<^verbatim>\<open>self.session\<close> is \<^verbatim>\<open>None\<close>.\<close>

definition none_has_no :: "string \<Rightarrow> exn" where
  "none_has_no m = Exn AttributeError (''NoneType object has no attribute '' @ m)"

definition list_entry :: "tool \<Rightarrow> json" where
  "list_entry t =
     JObj [(''name'', JStr (name t)),
           (''description'', case description t of None \<Rightarrow> JNull | Some d \<Rightarrow> JStr d)]"

definition list_tools :: "world \<Rightarrow> executor \<Rightarrow> (exn + json list) \<times> executor" where
  "list_tools w s =
     (case lazy_connect w s of
        (Inl e, s1) \<Rightarrow> (Inl e, s1)
      | (Inr u, s1) \<Rightarrow>
     (case session s1 of
        None \<Rightarrow> (Inl (none_has_no ''list_tools''), s1)
      | Some cs \<Rightarrow>
     (case session_list_tools w (trace s1) cs of
        Inl e \<Rightarrow> (Inl e, log (ListTools cs) s1)
      | Inr tools \<Rightarrow> (Inr (map list_entry tools), log (ListTools cs) s1))))"

definition schema_entry :: "tool \<Rightarrow> json" where
  "schema_entry t =
     JObj [(''name'', JStr (name t)),
           (''description'', case description t of None \<Rightarrow> JNull | Some d \<Rightarrow> JStr d),
           (''inputSchema'', inputSchema t)]"

text \<open>The \<^verbatim>\<open>for tool in response.tools\<close> loop of \<^verbatim>\<open>describe_tool\<close>.\<close>

fun scan_tools :: "tool list \<Rightarrow> string \<Rightarrow> json option" where
  "scan_tools [] tool_name = None"
| "scan_tools (t # ts) tool_name =
     (if name t = tool_name then Some (schema_entry t) else scan_tools ts tool_name)"

definition describe_tool :: "world \<Rightarrow> string \<Rightarrow> executor \<Rightarrow> (exn + json option) \<times> executor" where
  "describe_tool w tool_name s =
     (case lazy_connect w s of
        (Inl e, s1) \<Rightarrow> (Inl e, s1)
      | (Inr u, s1) \<Rightarrow>
     (case session s1 of
        None \<Rightarrow> (Inl (none_has_no ''list_tools''), s1)
      | Some cs \<Rightarrow>
     (case session_list_tools w (trace s1) cs of
        Inl e \<Rightarrow> (Inl e, log (ListTools cs) s1)
      | Inr tools \<Rightarrow> (Inr (scan_tools tools tool_name), log (ListTools cs) s1))))"

text \<open>
  \<^verbatim>\<open>call_tool\<close>: the name and the arguments are whatever the caller hands over
  (\<^verbatim>\<open>main\<close> passes values decoded from JSON); the result is \<^verbatim>\<open>response.content\<close>.
\<close>

definition call_tool ::
  "world \<Rightarrow> json \<Rightarrow> json \<Rightarrow> executor \<Rightarrow> (exn + content_item list) \<times> executor" where
  "call_tool w tool_name arguments s =
     (case lazy_connect w s of
        (Inl e, s1) \<Rightarrow> (Inl e, s1)
      | (Inr u, s1) \<Rightarrow>
     (case session s1 of
        None \<Rightarrow> (Inl (none_has_no ''call_tool''), s1)
      | Some cs \<Rightarrow>
     (case session_call_tool w (trace s1) cs tool_name arguments of
        Inl e \<Rightarrow> (Inl e, log (CallTool cs tool_name arguments) s1)
      | Inr response \<Rightarrow> (Inr (content response), log (CallTool cs tool_name arguments) s1))))"

text \<open>\<^verbatim>\<open>close\<close>: the bare \<^verbatim>\<open>except: pass\<close> turns every exception into a return.\<close>

definition close :: "world \<Rightarrow> executor \<Rightarrow> (exn + unit) \<times> executor" where
  "close w s =
     (case session s of
        None \<Rightarrow> (Inr (), s)
      | Some cs \<Rightarrow>
     (case session_aexit w (trace s) cs of
        Inl e \<Rightarrow> (Inr (), log (Aexit cs) s)
      | Inr u \<Rightarrow> (Inr (), log (Aexit cs) s)))"

section \<open>Counting calls\<close>

fun is_connect :: "event \<Rightarrow> bool" where
  "is_connect Connect = True"
| "is_connect ev = False"

fun is_spawn :: "event \<Rightarrow> bool" where
  "is_spawn (Spawn p) = True"
| "is_spawn ev = False"

fun is_handshake :: "event \<Rightarrow> bool" where
  "is_handshake (Initialize cs) = True"
| "is_handshake ev = False"

definition connects :: "event list \<Rightarrow> nat" where
  "connects tr = length (filter is_connect tr)"

definition spawns :: "event list \<Rightarrow> nat" where
  "spawns tr = length (filter is_spawn tr)"

definition handshakes :: "event list \<Rightarrow> nat" where
  "handshakes tr = length (filter is_handshake tr)"

text \<open>One of the three operations, and the executor it leaves behind.\<close>

datatype operation = OpList | OpDescribe string | OpCall json json

fun state_after :: "world \<Rightarrow> operation \<Rightarrow> executor \<Rightarrow> executor" where
  "state_after w OpList s = snd (list_tools w s)"
| "state_after w (OpDescribe n) s = snd (describe_tool w n s)"
| "state_after w (OpCall n a) s = snd (call_tool w n a s)"

section \<open>The command line\<close>

text \<open>
  What \<^verbatim>\<open>parser.parse_args()\<close> returns: \<^verbatim>\<open>args.call\<close>, \<^verbatim>\<open>args.describe\<close>,
  \<^verbatim>\<open>args.list\<close>. (An argument list that argparse rejects, and \<^verbatim>\<open>--help\<close>, end the
  process inside \<^verbatim>\<open>parse_args\<close>, before any of the code below.)
\<close>

record cli_args =
  arg_call :: "string option"
  arg_describe :: "string option"
  arg_list :: bool

text \<open>
  What the script reads from its host: the \<^verbatim>\<open>HAS_MCP\<close> flag set by the import, the
  path of \<^verbatim>\<open>mcp-config.json\<close> and whether it exists, what \<^verbatim>\<open>open\<close> and
  \<^verbatim>\<open>json.load\<close> give for it, and \<^verbatim>\<open>json.loads\<close>.
\<close>

record host =
  has_mcp :: bool
  config_path :: string
  config_exists :: bool
  config_load :: "exn + json"
  json_loads :: "string \<Rightarrow> exn + json"

datatype out_line = JsonDoc json | TextLine string | HelpText

datatype diag = Line string | Traceback exn

record io =
  stdout :: "out_line list"
  stderr :: "diag list"

definition out :: "out_line \<Rightarrow> io \<Rightarrow> io" where
  "out l i = i\<lparr>stdout := stdout i @ [l]\<rparr>"

definition err :: "diag \<Rightarrow> io \<Rightarrow> io" where
  "err d i = i\<lparr>stderr := stderr i @ [d]\<rparr>"

text \<open>How a coroutine ends: it returns, \<^verbatim>\<open>sys.exit(n)\<close>, or an exception leaves it.\<close>

datatype outcome = Returned | SysExit nat | Raised exn

text \<open>Truth value of an optional string argument: \<^verbatim>\<open>None\<close> and \<^verbatim>\<open>""\<close> are false.\<close>

fun truthy :: "string option \<Rightarrow> bool" where
  "truthy None = False"
| "truthy (Some s) = (s \<noteq> [])"

fun str_of :: "string option \<Rightarrow> string" where
  "str_of None = []"
| "str_of (Some s) = s"

text \<open>The \<^verbatim>\<open>for item in result\<close> loop that prints a call's result.\<close>

fun print_items :: "content_item list \<Rightarrow> io \<Rightarrow> (exn + unit) \<times> io" where
  "print_items [] i = (Inr (), i)"
| "print_items (TextItem t # items) i = print_items items (out (TextLine t) i)"
| "print_items (StructuredItem j # items) i = print_items items (out (JsonDoc j) i)"
| "print_items (OpaqueItem # items) i =
     (Inl (Exn TypeError ''Object is not JSON serializable''), i)"

text \<open>
  The body of the \<^verbatim>\<open>try\<close> statement of \<^verbatim>\<open>main\<close>. A schema that
  \<^verbatim>\<open>describe_tool\<close> returns has three keys, so \<^verbatim>\<open>if schema\<close> asks whether it is
  \<^verbatim>\<open>None\<close>; \<^verbatim>\<open>response.content\<close> is a list, so the result is printed item by item.
\<close>

definition try_body ::
  "host \<Rightarrow> world \<Rightarrow> cli_args \<Rightarrow> executor \<Rightarrow> io \<Rightarrow> outcome \<times> executor \<times> io" where
  "try_body h w a ex i =
     (if arg_list a then
        (case list_tools w ex of
           (Inl e, ex1) \<Rightarrow> (Raised e, ex1, i)
         | (Inr tools, ex1) \<Rightarrow> (Returned, ex1, out (JsonDoc (JList tools)) i))
      else if truthy (arg_describe a) then
        (case describe_tool w (str_of (arg_describe a)) ex of
           (Inl e, ex1) \<Rightarrow> (Raised e, ex1, i)
         | (Inr (Some schema), ex1) \<Rightarrow> (Returned, ex1, out (JsonDoc schema) i)
         | (Inr None, ex1) \<Rightarrow>
             (SysExit 1, ex1, err (Line (''Tool not found: '' @ str_of (arg_describe a))) i))
      else if truthy (arg_call a) then
        (case json_loads h (str_of (arg_call a)) of
           Inl e \<Rightarrow> (Raised e, ex, i)
         | Inr call_data \<Rightarrow>
        (case py_getitem call_data ''tool'' of
           Inl e \<Rightarrow> (Raised e, ex, i)
         | Inr tool_nm \<Rightarrow>
        (case py_get call_data ''arguments'' (JObj []) of
           Inl e \<Rightarrow> (Raised e, ex, i)
         | Inr arguments \<Rightarrow>
        (case call_tool w tool_nm arguments ex of
           (Inl e, ex1) \<Rightarrow> (Raised e, ex1, i)
         | (Inr result, ex1) \<Rightarrow>
        (case print_items result i of
           (Inl e, i1) \<Rightarrow> (Raised e, ex1, i1)
         | (Inr u, i1) \<Rightarrow> (Returned, ex1, i1))))))
      else (Returned, ex, out HelpText i))"

text \<open>The \<^verbatim>\<open>finally\<close> clause: \<^verbatim>\<open>await executor.close()\<close>, then the pending outcome.\<close>

definition finally_close :: "world \<Rightarrow> executor \<Rightarrow> outcome \<Rightarrow> io \<Rightarrow> outcome \<times> io" where
  "finally_close w ex pending i =
     (case close w ex of
        (Inl e, ex1) \<Rightarrow> (Raised e, i)
      | (Inr u, ex1) \<Rightarrow> (pending, i))"

definition main :: "host \<Rightarrow> world \<Rightarrow> cli_args \<Rightarrow> io \<Rightarrow> outcome \<times> io" where
  "main h w a i =
     (if \<not> config_exists h then
        (SysExit 1, err (Line (''Error: Configuration file not found: '' @ config_path h)) i)
      else
        (case config_load h of
           Inl e \<Rightarrow> (Raised e, i)
         | Inr config \<Rightarrow>
        (if \<not> has_mcp h then
           (SysExit 1,
            err (Line ''Install with: pip install mcp'')
              (err (Line ''Error: mcp package not installed'') i))
         else
        (case init (has_mcp h) config of
           Inl e \<Rightarrow> (Raised e, i)
         | Inr executor \<Rightarrow>
        (case try_body h w a executor i of
           (Returned, ex1, i1) \<Rightarrow> finally_close w ex1 Returned i1
         | (SysExit n, ex1, i1) \<Rightarrow> finally_close w ex1 (SysExit n) i1
         | (Raised e, ex1, i1) \<Rightarrow>
             finally_close w ex1 (SysExit 1)
               (err (Traceback e) (err (Line (''Error: '' @ exn_str e)) i1)))))))"

text \<open>
  The script as a process: the import of the module (with its warning when the mcp
  package is missing), then \<^verbatim>\<open>asyncio.run(main())\<close>. The interpreter ends with
  status 0 after a return, with \<open>n\<close> after \<^verbatim>\<open>sys.exit(n)\<close>, and with status 1 and a
  traceback on the diagnostic stream after an exception that nothing caught.
\<close>

definition script :: "host \<Rightarrow> world \<Rightarrow> cli_args \<Rightarrow> nat \<times> io" where
  "script h w a =
     (case main h w a
             \<lparr>stdout = [],
              stderr = (if has_mcp h then []
                        else [Line ''Warning: mcp package not installed. Install with: pip install mcp''])\<rparr> of
        (Returned, i) \<Rightarrow> (0, i)
      | (SysExit n, i) \<Rightarrow> (n, i)
      | (Raised e, i) \<Rightarrow> (1, err (Traceback e) i))"

section \<open>Sample hosts, servers and configurations\<close>

text \<open>The executor \<^verbatim>\<open>MCPExecutor(cfg)\<close> builds when the mcp package is there.\<close>

definition fresh :: "json \<Rightarrow> executor" where
  "fresh cfg = \<lparr>server_config = cfg, session = None, stdio_transport = None, trace = []\<rparr>"

definition echo_config :: json where
  "echo_config = JObj [(''command'', JStr ''echo-server''), (''args'', JList [])]"

definition ping_tool :: tool where
  "ping_tool = \<lparr>name = ''ping'', description = Some ''replies pong'', inputSchema = JObj []\<rparr>"

definition tool_a :: tool where
  "tool_a = \<lparr>name = ''a'', description = Some ''first'', inputSchema = JObj [(''type'', JStr ''object'')]\<rparr>"

definition tool_b :: tool where
  "tool_b = \<lparr>name = ''b'', description = None, inputSchema = JObj [(''type'', JStr ''string'')]\<rparr>"

definition tool_b2 :: tool where
  "tool_b2 = \<lparr>name = ''b'', description = Some ''shadowed'', inputSchema = JNull\<rparr>"

text \<open>
  A server that always starts, hands out a new pair of streams at each spawn, lists the
  given tools, answers every call with the given response and ends the session with the
  given outcome.
\<close>

definition sample_world :: "tool list \<Rightarrow> (exn + call_tool_result) \<Rightarrow> (exn + unit) \<Rightarrow> world" where
  "sample_world tools response bye =
     \<lparr>stdio_client = (\<lambda>h p. Inr (2 * spawns h, 2 * spawns h + 1)),
      session_initialize = (\<lambda>h cs. Inr ()),
      session_list_tools = (\<lambda>h cs. Inr tools),
      session_call_tool = (\<lambda>h cs n a. response),
      session_aexit = (\<lambda>h cs. bye)\<rparr>"

definition pong :: call_tool_result where
  "pong = \<lparr>content = [TextItem ''pong''], isError = False\<rparr>"

definition echo_world :: world where
  "echo_world = sample_world [ping_tool] (Inr pong) (Inr ())"

text \<open>The text \<^verbatim>\<open>{"tool": "ping"}\<close> of a \<^verbatim>\<open>--call\<close> argument.\<close>

definition quoted :: "string \<Rightarrow> string" where
  "quoted s = CHR 0x22 # s @ [CHR 0x22]"

definition ping_call :: string where
  "ping_call = ''{'' @ quoted ''tool'' @ '': '' @ quoted ''ping'' @ ''}''"

definition sample_host :: "exn + json \<Rightarrow> host" where
  "sample_host loaded =
     \<lparr>has_mcp = True, config_path = ''mcp-config.json'', config_exists = True,
      config_load = loaded,
      json_loads = (\<lambda>s. if s = ping_call then Inr (JObj [(''tool'', JStr ''ping'')])
                         else Inl (Exn ValueError ''Expecting value''))\<rparr>"

definition list_args :: cli_args where
  "list_args = \<lparr>arg_call = None, arg_describe = None, arg_list = True\<rparr>"

definition describe_args :: "string \<Rightarrow> cli_args" where
  "describe_args n = \<lparr>arg_call = None, arg_describe = Some n, arg_list = False\<rparr>"

definition call_args :: "string \<Rightarrow> cli_args" where
  "call_args c = \<lparr>arg_call = Some c, arg_describe = None, arg_list = False\<rparr>"

definition no_args :: cli_args where
  "no_args = \<lparr>arg_call = None, arg_describe = None, arg_list = False\<rparr>"

text \<open>The keys of a dictionary, in order.\<close>

fun keys :: "json \<Rightarrow> string list" where
  "keys (JObj kv) = map fst kv"
| "keys j = []"


section \<open>Facts about the operations\<close>

lemmas sample_defs = connect_def fresh_def echo_config_def sample_world_def echo_world_def
  log_def Let_def spawns_def connects_def handshakes_def list_tools_def describe_tool_def
  call_tool_def close_def pong_def ping_tool_def

subsection \<open>close\<close>

lemma close_returns: "fst (close w s) = Inr ()"
  by (simp add: close_def split: option.splits sum.splits)

lemma close_session: "session (snd (close w s)) = session s"
  by (simp add: close_def log_def split: option.splits sum.splits)

lemma close_trace:
  "session s = Some cs \<Longrightarrow> trace (snd (close w s)) = trace s @ [Aexit cs]"
  by (simp add: close_def log_def split: sum.splits)

subsection \<open>connect\<close>

lemma connect_connects: "connects (trace (snd (connect w s))) = connects (trace s) + 1"
  by (simp add: connect_def log_def Let_def connects_def split: sum.splits prod.splits)

lemma connect_handshakes_le:
  "handshakes (trace (snd (connect w s))) \<le> handshakes (trace s) + 1"
  by (simp add: connect_def log_def Let_def handshakes_def split: sum.splits prod.splits)

lemma connect_ok:
  "fst (connect w s) = Inr () \<Longrightarrow>
     handshakes (trace (snd (connect w s))) = handshakes (trace s) + 1 \<and>
     spawns (trace (snd (connect w s))) = spawns (trace s) + 1 \<and>
     session (snd (connect w s)) \<noteq> None"
  by (auto simp add: connect_def log_def Let_def handshakes_def spawns_def
      split: sum.splits prod.splits)

text \<open>Starting without a session, a session is there afterwards only if the spawn
  succeeded, and then the handshake was attempted on it.\<close>

lemma connect_left_session:
  "session s = None \<Longrightarrow> session (snd (connect w s)) \<noteq> None \<Longrightarrow>
     handshakes (trace (snd (connect w s))) = handshakes (trace s) + 1 \<and>
     spawns (trace (snd (connect w s))) = spawns (trace s) + 1"
  by (auto simp add: connect_def log_def Let_def handshakes_def spawns_def
      split: sum.splits prod.splits)

lemma connect_new_session:
  "fst (connect w s) = Inr () \<Longrightarrow>
     \<exists>r wr. session (snd (connect w s)) = Some (ClientSession r wr) \<and>
            stdio_transport (snd (connect w s)) = Some (r, wr) \<and>
            Initialize (ClientSession r wr) = last (trace (snd (connect w s)))"
  by (auto simp add: connect_def log_def Let_def split: sum.splits prod.splits)

subsection \<open>The operations after the lazy connect\<close>

lemma list_tools_connected:
  assumes "lazy_connect w s = (Inr (), s1)" and "session s1 = Some cs"
  shows "list_tools w s =
     (case session_list_tools w (trace s1) cs of
        Inl e \<Rightarrow> (Inl e, log (ListTools cs) s1)
      | Inr tools \<Rightarrow> (Inr (map list_entry tools), log (ListTools cs) s1))"
  using assms by (cases "session s = None") (simp_all add: list_tools_def)

lemma describe_tool_connected:
  assumes "lazy_connect w s = (Inr (), s1)" and "session s1 = Some cs"
  shows "describe_tool w n s =
     (case session_list_tools w (trace s1) cs of
        Inl e \<Rightarrow> (Inl e, log (ListTools cs) s1)
      | Inr tools \<Rightarrow> (Inr (scan_tools tools n), log (ListTools cs) s1))"
  using assms by (cases "session s = None") (simp_all add: describe_tool_def)

lemma call_tool_connected:
  assumes "lazy_connect w s = (Inr (), s1)" and "session s1 = Some cs"
  shows "call_tool w n a s =
     (case session_call_tool w (trace s1) cs n a of
        Inl e \<Rightarrow> (Inl e, log (CallTool cs n a) s1)
      | Inr response \<Rightarrow> (Inr (content response), log (CallTool cs n a) s1))"
  using assms by (cases "session s = None") (simp_all add: call_tool_def)

text \<open>An operation adds to the trace of its lazy connect at most its own request.\<close>

lemma state_after_trace:
  "\<exists>req. trace (state_after w opn s) = trace (snd (lazy_connect w s)) @ req \<and>
         (\<forall>ev \<in> set req. \<not> is_connect ev \<and> \<not> is_spawn ev \<and> \<not> is_handshake ev)"
proof (cases opn)
  case OpList
  then show ?thesis
    by (auto simp add: list_tools_def log_def split: prod.splits sum.splits option.splits)
next
  case (OpDescribe n)
  then show ?thesis
    by (auto simp add: describe_tool_def log_def split: prod.splits sum.splits option.splits)
next
  case (OpCall n a)
  then show ?thesis
    by (auto simp add: call_tool_def log_def split: prod.splits sum.splits option.splits)
qed

lemma state_after_session:
  "session (state_after w opn s) = session (snd (lazy_connect w s))"
proof (cases opn)
  case OpList
  then show ?thesis
    by (auto simp add: list_tools_def log_def split: prod.splits sum.splits option.splits)
next
  case (OpDescribe n)
  then show ?thesis
    by (auto simp add: describe_tool_def log_def split: prod.splits sum.splits option.splits)
next
  case (OpCall n a)
  then show ?thesis
    by (auto simp add: call_tool_def log_def split: prod.splits sum.splits option.splits)
qed

lemma uncounted_requests:
  "\<forall>ev \<in> set req. \<not> is_connect ev \<and> \<not> is_spawn ev \<and> \<not> is_handshake ev \<Longrightarrow>
     connects (tr @ req) = connects tr \<and> spawns (tr @ req) = spawns tr \<and>
     handshakes (tr @ req) = handshakes tr"
  by (induction req) (auto simp add: connects_def spawns_def handshakes_def)

lemma state_after_counts:
  "connects (trace (state_after w opn s)) = connects (trace (snd (lazy_connect w s))) \<and>
   spawns (trace (state_after w opn s)) = spawns (trace (snd (lazy_connect w s))) \<and>
   handshakes (trace (state_after w opn s)) = handshakes (trace (snd (lazy_connect w s)))"
proof -
  obtain req where t: "trace (state_after w opn s) = trace (snd (lazy_connect w s)) @ req"
    and n: "\<forall>ev \<in> set req. \<not> is_connect ev \<and> \<not> is_spawn ev \<and> \<not> is_handshake ev"
    using state_after_trace by blast
  show ?thesis unfolding t using uncounted_requests [OF n] by blast
qed

subsection \<open>The scan of describe_tool\<close>

lemma scan_tools_find:
  "scan_tools tools n = map_option schema_entry (find (\<lambda>t. name t = n) tools)"
  by (induction tools) simp_all

lemma scan_tools_first:
  "\<forall>u \<in> set pre. name u \<noteq> n \<Longrightarrow> name t = n \<Longrightarrow>
     scan_tools (pre @ t # post) n = Some (schema_entry t)"
  by (induction pre) simp_all

lemma scan_tools_none: "\<forall>t \<in> set tools. name t \<noteq> n \<Longrightarrow> scan_tools tools n = None"
  by (induction tools) simp_all

lemma scan_tools_some:
  "\<exists>t \<in> set tools. name t = n \<Longrightarrow>
     \<exists>t \<in> set tools. name t = n \<and> scan_tools tools n = Some (schema_entry t)"
  by (induction tools) auto

subsection \<open>main\<close>

lemma finally_close_eq: "finally_close w ex p i = (p, i)"
  using close_returns [of w ex] by (cases "close w ex") (simp add: finally_close_def)

lemma print_items_ok: "(fst (print_items items i) = Inr ()) = (OpaqueItem \<notin> set items)"
  by (induction items i rule: print_items.induct) simp_all

lemma main_ready:
  assumes "config_exists h" and "config_load h = Inr cfg" and "has_mcp h"
  shows "main h w a i =
     (case try_body h w a (fresh cfg) i of
        (Returned, ex1, i1) \<Rightarrow> (Returned, i1)
      | (SysExit n, ex1, i1) \<Rightarrow> (SysExit n, i1)
      | (Raised e, ex1, i1) \<Rightarrow>
          (SysExit 1, err (Traceback e) (err (Line (''Error: '' @ exn_str e)) i1)))"
  using assms
  by (simp add: main_def init_def fresh_def finally_close_eq split: prod.splits outcome.splits)

lemma try_body_list:
  "arg_list a \<Longrightarrow>
     fst (try_body h w a ex i) = (case fst (list_tools w ex) of Inl e \<Rightarrow> Raised e | Inr t \<Rightarrow> Returned)"
  by (simp add: try_body_def split: prod.splits sum.splits)

lemma try_body_describe:
  "\<not> arg_list a \<Longrightarrow> truthy (arg_describe a) \<Longrightarrow>
     fst (try_body h w a ex i) =
       (case fst (describe_tool w (str_of (arg_describe a)) ex) of
          Inl e \<Rightarrow> Raised e
        | Inr None \<Rightarrow> SysExit 1
        | Inr (Some d) \<Rightarrow> Returned)"
  by (simp add: try_body_def split: prod.splits sum.splits option.splits)

lemma try_body_call:
  "\<not> arg_list a \<Longrightarrow> \<not> truthy (arg_describe a) \<Longrightarrow> truthy (arg_call a) \<Longrightarrow>
     (fst (try_body h w a ex i) = Returned) =
       (\<exists>call_data n arguments items.
          json_loads h (str_of (arg_call a)) = Inr call_data \<and>
          py_getitem call_data ''tool'' = Inr n \<and>
          py_get call_data ''arguments'' (JObj []) = Inr arguments \<and>
          fst (call_tool w n arguments ex) = Inr items \<and>
          OpaqueItem \<notin> set items)"
  using print_items_ok
  apply (simp add: try_body_def split: prod.splits sum.splits)
  apply (metis fst_conv old.unit.exhaust sum.distinct(1))
  done

lemma try_body_help:
  "\<not> arg_list a \<Longrightarrow> \<not> truthy (arg_describe a) \<Longrightarrow> \<not> truthy (arg_call a) \<Longrightarrow>
     try_body h w a ex i = (Returned, ex, out HelpText i)"
  by (simp add: try_body_def)

lemma try_body_exit:
  "fst (try_body h w a ex i) = SysExit n \<Longrightarrow>
     n = 1 \<and> \<not> arg_list a \<and> truthy (arg_describe a) \<and>
     fst (describe_tool w (str_of (arg_describe a)) ex) = Inr None \<and>
     stderr (snd (snd (try_body h w a ex i)))
       = stderr i @ [Line (''Tool not found: '' @ str_of (arg_describe a))]"
  by (auto simp add: try_body_def err_def split: prod.splits sum.splits option.splits if_splits)

lemma script_missing:
  "\<not> config_exists h \<Longrightarrow>
     fst (script h w a) = 1 \<and>
     Line (''Error: Configuration file not found: '' @ config_path h) \<in> set (stderr (snd (script h w a)))"
  by (simp add: script_def main_def err_def)

lemma script_unreadable:
  "config_exists h \<Longrightarrow> config_load h = Inl e \<Longrightarrow>
     fst (script h w a) = 1 \<and> Traceback e \<in> set (stderr (snd (script h w a)))"
  by (simp add: script_def main_def err_def)

lemma script_no_mcp:
  "config_exists h \<Longrightarrow> config_load h = Inr cfg \<Longrightarrow> \<not> has_mcp h \<Longrightarrow>
     fst (script h w a) = 1 \<and>
     Line ''Error: mcp package not installed'' \<in> set (stderr (snd (script h w a)))"
  by (simp add: script_def main_def err_def)

lemma script_ready:
  assumes "config_exists h" and "config_load h = Inr cfg" and "has_mcp h"
  shows "fst (script h w a) =
           (case fst (try_body h w a (fresh cfg) \<lparr>stdout = [], stderr = []\<rparr>) of
              Returned \<Rightarrow> 0 | SysExit n \<Rightarrow> n | Raised e \<Rightarrow> 1)"
    and "fst (script h w a) = 1 \<Longrightarrow> stderr (snd (script h w a)) \<noteq> []"
    and "fst (try_body h w a (fresh cfg) \<lparr>stdout = [], stderr = []\<rparr>) = Raised e \<Longrightarrow>
           Line (''Error: '' @ exn_str e) \<in> set (stderr (snd (script h w a)))"
    and "fst (try_body h w a (fresh cfg) \<lparr>stdout = [], stderr = []\<rparr>) = SysExit n \<Longrightarrow>
           Line (''Tool not found: '' @ str_of (arg_describe a)) \<in> set (stderr (snd (script h w a)))"
proof -
  let ?i = "\<lparr>stdout = [], stderr = []\<rparr>"
  obtain oc ex1 i1 where t: "try_body h w a (fresh cfg) ?i = (oc, ex1, i1)"
    by (cases "try_body h w a (fresh cfg) ?i") auto
  have m: "main h w a ?i =
     (case oc of Returned \<Rightarrow> (Returned, i1) | SysExit n \<Rightarrow> (SysExit n, i1)
      | Raised e \<Rightarrow> (SysExit 1, err (Traceback e) (err (Line (''Error: '' @ exn_str e)) i1)))"
    using main_ready [OF assms, of w a ?i] t by (simp split: outcome.splits)
  show 1: "fst (script h w a) =
           (case fst (try_body h w a (fresh cfg) ?i) of
              Returned \<Rightarrow> 0 | SysExit n \<Rightarrow> n | Raised e \<Rightarrow> 1)"
    using assms(3) m t by (simp add: script_def split: outcome.splits)
  show "stderr (snd (script h w a)) \<noteq> []" if "fst (script h w a) = 1"
  proof (cases oc)
    case Returned
    then show ?thesis using 1 t that by simp
  next
    case (SysExit n)
    then show ?thesis
      using try_body_exit [of h w a "fresh cfg" ?i n] t m assms(3) by (simp add: script_def)
  next
    case (Raised e)
    then show ?thesis using m assms(3) by (simp add: script_def err_def)
  qed
  show "Line (''Error: '' @ exn_str e) \<in> set (stderr (snd (script h w a)))"
    if "fst (try_body h w a (fresh cfg) ?i) = Raised e"
    using that t m assms(3) by (simp add: script_def err_def)
  show "Line (''Tool not found: '' @ str_of (arg_describe a)) \<in> set (stderr (snd (script h w a)))"
    if "fst (try_body h w a (fresh cfg) ?i) = SysExit n"
    using try_body_exit [OF that] that t m assms(3) by (simp add: script_def)
qed

section \<open>The claims\<close>

subsection \<open>Lazy connect\<close>

text \<open>
  C1. An executor without a session that runs one of list, describe or call enters
  \<^verbatim>\<open>connect\<close> exactly once and attempts at most one handshake; when that operation leaves a
  session behind (the spawn succeeded, as it does whenever \<^verbatim>\<open>connect\<close> returns), the
  handshake was attempted exactly once, and a second operation adds no connect and no
  handshake. An executor that has a session enters no connect, spawn or handshake and
  keeps its session.
\<close>

theorem lazy_connect_once:
  "(session s = None \<longrightarrow>
      connects (trace (state_after w op1 s)) = connects (trace s) + 1 \<and>
      handshakes (trace (state_after w op1 s)) \<le> handshakes (trace s) + 1 \<and>
      (fst (connect w s) = Inr () \<longrightarrow> session (state_after w op1 s) \<noteq> None) \<and>
      (session (state_after w op1 s) \<noteq> None \<longrightarrow>
         handshakes (trace (state_after w op1 s)) = handshakes (trace s) + 1 \<and>
         connects (trace (state_after w op2 (state_after w op1 s))) = connects (trace s) + 1 \<and>
         handshakes (trace (state_after w op2 (state_after w op1 s))) = handshakes (trace s) + 1)) \<and>
   (session s \<noteq> None \<longrightarrow>
      connects (trace (state_after w op1 s)) = connects (trace s) \<and>
      spawns (trace (state_after w op1 s)) = spawns (trace s) \<and>
      handshakes (trace (state_after w op1 s)) = handshakes (trace s) \<and>
      session (state_after w op1 s) = session s)"
proof (intro conjI impI)
  assume n: "session s = None"
  show "connects (trace (state_after w op1 s)) = connects (trace s) + 1"
    using state_after_counts [of w op1 s] n by (simp add: connect_connects)
  show "handshakes (trace (state_after w op1 s)) \<le> handshakes (trace s) + 1"
    using state_after_counts [of w op1 s] n connect_handshakes_le [of w s] by simp
next
  assume n: "session s = None" and ok: "fst (connect w s) = Inr ()"
  show "session (state_after w op1 s) \<noteq> None"
    using state_after_session [of w op1 s] n connect_ok [OF ok] by simp
next
  assume n: "session s = None" and s1: "session (state_after w op1 s) \<noteq> None"
  have left: "session (snd (connect w s)) \<noteq> None"
    using state_after_session [of w op1 s] n s1 by simp
  show h1: "handshakes (trace (state_after w op1 s)) = handshakes (trace s) + 1"
    using state_after_counts [of w op1 s] n connect_left_session [OF n left] by simp
  have c1: "connects (trace (state_after w op1 s)) = connects (trace s) + 1"
    using state_after_counts [of w op1 s] n by (simp add: connect_connects)
  show "connects (trace (state_after w op2 (state_after w op1 s))) = connects (trace s) + 1"
    using state_after_counts [of w op2 "state_after w op1 s"] s1 c1 by simp
  show "handshakes (trace (state_after w op2 (state_after w op1 s))) = handshakes (trace s) + 1"
    using state_after_counts [of w op2 "state_after w op1 s"] s1 h1 by simp
next
  assume c: "session s \<noteq> None"
  show "connects (trace (state_after w op1 s)) = connects (trace s)"
    using state_after_counts [of w op1 s] c by simp
  show "spawns (trace (state_after w op1 s)) = spawns (trace s)"
    using state_after_counts [of w op1 s] c by simp
  show "handshakes (trace (state_after w op1 s)) = handshakes (trace s)"
    using state_after_counts [of w op1 s] c by simp
  show "session (state_after w op1 s) = session s"
    using state_after_session [of w op1 s] c by simp
qed

text \<open>A list followed by a call on the echo server: one connect, one handshake.\<close>

theorem lazy_connect_once_witness:
  "session (fresh echo_config) = None \<and>
   fst (connect echo_world (fresh echo_config)) = Inr () \<and>
   connects (trace (state_after echo_world OpList (fresh echo_config))) = 1 \<and>
   handshakes (trace (state_after echo_world OpList (fresh echo_config))) = 1 \<and>
   session (state_after echo_world OpList (fresh echo_config)) = Some (ClientSession 0 1) \<and>
   connects (trace (state_after echo_world (OpCall (JStr ''ping'') (JObj []))
      (state_after echo_world OpList (fresh echo_config)))) = 1 \<and>
   handshakes (trace (state_after echo_world (OpCall (JStr ''ping'') (JObj []))
      (state_after echo_world OpList (fresh echo_config)))) = 1 \<and>
   trace (state_after echo_world (OpCall (JStr ''ping'') (JObj []))
      (state_after echo_world OpList (fresh echo_config))) =
     [Connect,
      Spawn \<lparr>command = JStr ''echo-server'', args = JList [], env = JNull\<rparr>,
      Initialize (ClientSession 0 1), ListTools (ClientSession 0 1),
      CallTool (ClientSession 0 1) (JStr ''ping'') (JObj [])]"
  using lazy_connect_once [of "fresh echo_config" echo_world OpList "OpCall (JStr ''ping'') (JObj [])"]
  by (simp add: sample_defs)

subsection \<open>Tool failures and protocol failures\<close>

text \<open>
  C2, as the code has it. \<^verbatim>\<open>call_tool\<close> returns \<^verbatim>\<open>response.content\<close> of whatever
  response the session gives, whether or not the response carries the tool-failure flag:
  a tool failure is returned as ordinary content and no error is raised for it. An
  exception raised by the session's \<^verbatim>\<open>call_tool\<close> (a malformed response, a broken
  stream) leaves \<^verbatim>\<open>call_tool\<close> unchanged. So a caller can tell a protocol failure (an
  exception) from a response (a return value), and cannot tell a failed tool from a
  successful one with the same content.
\<close>

theorem call_tool_returns_content:
  assumes "lazy_connect w s = (Inr (), s1)" and "session s1 = Some cs"
  shows "(session_call_tool w (trace s1) cs n a = Inr r \<longrightarrow>
            fst (call_tool w n a s) = Inr (content r)) \<and>
         (session_call_tool w (trace s1) cs n a = Inl e \<longrightarrow>
            fst (call_tool w n a s) = Inl e)"
  using call_tool_connected [OF assms, of n a] by simp

theorem call_tool_returns_content_witness:
  "fst (call_tool echo_world (JStr ''ping'') (JObj []) (fresh echo_config)) = Inr [TextItem ''pong''] \<and>
   fst (call_tool (sample_world [] (Inl (Exn LibraryError ''Invalid JSON-RPC message'')) (Inr ()))
          (JStr ''ping'') (JObj []) (fresh echo_config))
     = Inl (Exn LibraryError ''Invalid JSON-RPC message'')"
proof -
  let ?bad = "sample_world [] (Inl (Exn LibraryError ''Invalid JSON-RPC message'')) (Inr ())"
  have c: "lazy_connect echo_world (fresh echo_config) = (Inr (), snd (connect echo_world (fresh echo_config)))"
    by (simp add: sample_defs)
  have s: "session (snd (connect echo_world (fresh echo_config))) = Some (ClientSession 0 1)"
    by (simp add: sample_defs)
  have c': "lazy_connect ?bad (fresh echo_config) = (Inr (), snd (connect ?bad (fresh echo_config)))"
    by (simp add: sample_defs)
  have s': "session (snd (connect ?bad (fresh echo_config))) = Some (ClientSession 0 1)"
    by (simp add: sample_defs)
  show ?thesis
    using call_tool_returns_content [OF c s, of "JStr ''ping''" "JObj []" pong]
      call_tool_returns_content [OF c' s', of "JStr ''ping''" "JObj []" _ "Exn LibraryError ''Invalid JSON-RPC message''"]
    by (simp add: echo_world_def sample_world_def pong_def)
qed

text \<open>
  A response that reports a tool failure is returned, not raised, and the caller gets
  the same value as for the successful response with the same content.
\<close>

theorem tool_failure_not_raised_counterexample:
  "isError \<lparr>content = [TextItem ''boom''], isError = True\<rparr> \<and>
   fst (call_tool (sample_world [ping_tool] (Inr \<lparr>content = [TextItem ''boom''], isError = True\<rparr>) (Inr ()))
          (JStr ''ping'') (JObj []) (fresh echo_config)) = Inr [TextItem ''boom''] \<and>
   fst (call_tool (sample_world [ping_tool] (Inr \<lparr>content = [TextItem ''boom''], isError = False\<rparr>) (Inr ()))
          (JStr ''ping'') (JObj []) (fresh echo_config)) = Inr [TextItem ''boom'']"
  by (simp add: sample_defs)

subsection \<open>Requests after close\<close>

text \<open>
  C3, as the code has it. \<^verbatim>\<open>close\<close> leaves \<^verbatim>\<open>self.session\<close> in place: after
  \<^verbatim>\<open>close\<close> on an executor with a session, the session is still the same one, every
  later operation enters no connect and no handshake, and a later list or call issues its
  request on that same, closed session.
\<close>

theorem close_keeps_session_in_use:
  assumes "session s = Some cs"
  shows "session (snd (close w s)) = Some cs \<and>
         trace (snd (close w s)) = trace s @ [Aexit cs] \<and>
         connects (trace (state_after w opn (snd (close w s)))) = connects (trace s) \<and>
         handshakes (trace (state_after w opn (snd (close w s)))) = handshakes (trace s) \<and>
         trace (snd (list_tools w (snd (close w s)))) = trace s @ [Aexit cs, ListTools cs] \<and>
         trace (snd (call_tool w n a (snd (close w s)))) = trace s @ [Aexit cs, CallTool cs n a]"
proof -
  let ?s2 = "snd (close w s)"
  have k: "session ?s2 = Some cs" using assms by (simp add: close_session)
  have t: "trace ?s2 = trace s @ [Aexit cs]" using assms by (rule close_trace)
  have cnt: "connects (trace ?s2) = connects (trace s) \<and> handshakes (trace ?s2) = handshakes (trace s)"
    by (simp add: t connects_def handshakes_def)
  have c: "connects (trace (state_after w opn ?s2)) = connects (trace s)"
    using state_after_counts [of w opn ?s2] k cnt by simp
  have h: "handshakes (trace (state_after w opn ?s2)) = handshakes (trace s)"
    using state_after_counts [of w opn ?s2] k cnt by simp
  have lz: "lazy_connect w ?s2 = (Inr (), ?s2)" using k by simp
  have l: "trace (snd (list_tools w ?s2)) = trace s @ [Aexit cs, ListTools cs]"
    using list_tools_connected [OF lz k] by (simp add: t log_def split: sum.splits)
  have ct: "trace (snd (call_tool w n a ?s2)) = trace s @ [Aexit cs, CallTool cs n a]"
    using call_tool_connected [OF lz k, of n a] by (simp add: t log_def split: sum.splits)
  from k t c h l ct show ?thesis by blast
qed

theorem close_keeps_session_in_use_witness:
  "session (state_after echo_world OpList (fresh echo_config)) = Some (ClientSession 0 1) \<and>
   session (snd (close echo_world (state_after echo_world OpList (fresh echo_config))))
     = Some (ClientSession 0 1) \<and>
   handshakes (trace (state_after echo_world OpList
      (snd (close echo_world (state_after echo_world OpList (fresh echo_config)))))) = 1"
proof -
  have s: "session (state_after echo_world OpList (fresh echo_config)) = Some (ClientSession 0 1)"
    by (simp add: sample_defs)
  have h: "handshakes (trace (state_after echo_world OpList (fresh echo_config))) = 1"
    by (simp add: sample_defs)
  note k = close_keeps_session_in_use [OF s, of echo_world OpList]
  have a: "session (snd (close echo_world (state_after echo_world OpList (fresh echo_config))))
     = Some (ClientSession 0 1)"
    using k by blast
  have b: "handshakes (trace (state_after echo_world OpList
      (snd (close echo_world (state_after echo_world OpList (fresh echo_config))))))
     = handshakes (trace (state_after echo_world OpList (fresh echo_config)))"
    using k by blast
  from s a b h show ?thesis by simp
qed

text \<open>
  List, close, list on the echo server: the second listing goes to the session that
  \<^verbatim>\<open>close\<close> has ended, with no second connect or handshake before it.
\<close>

theorem request_on_closed_session_counterexample:
  "trace (snd (list_tools echo_world
      (snd (close echo_world (snd (list_tools echo_world (fresh echo_config))))))) =
     [Connect,
      Spawn \<lparr>command = JStr ''echo-server'', args = JList [], env = JNull\<rparr>,
      Initialize (ClientSession 0 1), ListTools (ClientSession 0 1),
      Aexit (ClientSession 0 1), ListTools (ClientSession 0 1)] \<and>
   fst (list_tools echo_world
      (snd (close echo_world (snd (list_tools echo_world (fresh echo_config)))))) =
     Inr [JObj [(''name'', JStr ''ping''), (''description'', JStr ''replies pong'')]]"
  by (simp add: sample_defs list_entry_def)

subsection \<open>connect on a connected executor\<close>

text \<open>
  C4, as the code has it. \<^verbatim>\<open>connect\<close> has no guard of its own: every call enters a new
  connect, and a call that returns has spawned a new process, created a new session from
  the new streams, stored it in place of the old one and performed a handshake on it. The
  guard is in the callers: list, describe and call run \<^verbatim>\<open>connect\<close> only when there is no
  session, so on an executor that has one they add no connect, spawn or handshake and keep
  the session.
\<close>

theorem connect_unconditional:
  "connects (trace (snd (connect w s))) = connects (trace s) + 1 \<and>
   (fst (connect w s) = Inr () \<longrightarrow>
      spawns (trace (snd (connect w s))) = spawns (trace s) + 1 \<and>
      handshakes (trace (snd (connect w s))) = handshakes (trace s) + 1 \<and>
      (\<exists>r wr. session (snd (connect w s)) = Some (ClientSession r wr) \<and>
              stdio_transport (snd (connect w s)) = Some (r, wr) \<and>
              Initialize (ClientSession r wr) = last (trace (snd (connect w s))))) \<and>
   (session s \<noteq> None \<longrightarrow>
      lazy_connect w s = (Inr (), s) \<and>
      connects (trace (state_after w opn s)) = connects (trace s) \<and>
      spawns (trace (state_after w opn s)) = spawns (trace s) \<and>
      handshakes (trace (state_after w opn s)) = handshakes (trace s) \<and>
      session (state_after w opn s) = session s)"
proof (intro conjI impI)
  show "connects (trace (snd (connect w s))) = connects (trace s) + 1"
    by (rule connect_connects)
next
  assume ok: "fst (connect w s) = Inr ()"
  show "spawns (trace (snd (connect w s))) = spawns (trace s) + 1"
    using connect_ok [OF ok] by simp
  show "handshakes (trace (snd (connect w s))) = handshakes (trace s) + 1"
    using connect_ok [OF ok] by simp
  show "\<exists>r wr. session (snd (connect w s)) = Some (ClientSession r wr) \<and>
              stdio_transport (snd (connect w s)) = Some (r, wr) \<and>
              Initialize (ClientSession r wr) = last (trace (snd (connect w s)))"
    using ok by (rule connect_new_session)
next
  assume c: "session s \<noteq> None"
  show "lazy_connect w s = (Inr (), s)" using c by auto
  show "connects (trace (state_after w opn s)) = connects (trace s)"
    using state_after_counts [of w opn s] c by simp
  show "spawns (trace (state_after w opn s)) = spawns (trace s)"
    using state_after_counts [of w opn s] c by simp
  show "handshakes (trace (state_after w opn s)) = handshakes (trace s)"
    using state_after_counts [of w opn s] c by simp
  show "session (state_after w opn s) = session s"
    using state_after_session [of w opn s] c by simp
qed

theorem connect_unconditional_witness:
  "fst (connect echo_world (snd (list_tools echo_world (fresh echo_config)))) = Inr () \<and>
   connects (trace (snd (connect echo_world (snd (list_tools echo_world (fresh echo_config)))))) = 2 \<and>
   session (snd (list_tools echo_world (fresh echo_config))) \<noteq> None \<and>
   connects (trace (state_after echo_world (OpDescribe ''ping'')
       (snd (list_tools echo_world (fresh echo_config))))) = 1"
  using connect_unconditional [of echo_world "snd (list_tools echo_world (fresh echo_config))"
      "OpDescribe ''ping''"]
  by (simp add: sample_defs)

text \<open>
  \<^verbatim>\<open>connect\<close> on an executor whose session is ready: a second process is spawned, a
  second handshake is made, and the session is replaced.
\<close>

theorem connect_on_ready_counterexample:
  "fst (list_tools echo_world (fresh echo_config))
     = Inr [JObj [(''name'', JStr ''ping''), (''description'', JStr ''replies pong'')]] \<and>
   session (snd (list_tools echo_world (fresh echo_config))) = Some (ClientSession 0 1) \<and>
   session (snd (connect echo_world (snd (list_tools echo_world (fresh echo_config)))))
     = Some (ClientSession 2 3) \<and>
   trace (snd (connect echo_world (snd (list_tools echo_world (fresh echo_config))))) =
     [Connect,
      Spawn \<lparr>command = JStr ''echo-server'', args = JList [], env = JNull\<rparr>,
      Initialize (ClientSession 0 1), ListTools (ClientSession 0 1),
      Connect,
      Spawn \<lparr>command = JStr ''echo-server'', args = JList [], env = JNull\<rparr>,
      Initialize (ClientSession 2 3)]"
  by (simp add: sample_defs list_entry_def)

subsection \<open>describe_tool\<close>

text \<open>
  C5. For every listing the session returns and every queried name, \<^verbatim>\<open>describe_tool\<close>
  makes one \<^verbatim>\<open>list_tools\<close> request and scans the listing for a tool whose name equals
  the queried string exactly: when some tool has that name it returns the dictionary with
  that tool's name, description and inputSchema, and when none has it returns
  \<^verbatim>\<open>None\<close>, not an error.
\<close>

theorem describe_tool_scan:
  assumes "lazy_connect w s = (Inr (), s1)" and "session s1 = Some cs"
    and "session_list_tools w (trace s1) cs = Inr tools"
  shows "fst (describe_tool w n s) = Inr (map_option schema_entry (find (\<lambda>t. name t = n) tools)) \<and>
         trace (snd (describe_tool w n s)) = trace s1 @ [ListTools cs] \<and>
         ((\<exists>t \<in> set tools. name t = n) \<longrightarrow>
            (\<exists>t \<in> set tools. name t = n \<and> fst (describe_tool w n s) = Inr (Some (schema_entry t)) \<and>
               py_getitem (schema_entry t) ''name'' = Inr (JStr n) \<and>
               py_getitem (schema_entry t) ''inputSchema'' = Inr (inputSchema t) \<and>
               keys (schema_entry t) = [''name'', ''description'', ''inputSchema''])) \<and>
         ((\<forall>t \<in> set tools. name t \<noteq> n) \<longrightarrow> fst (describe_tool w n s) = Inr None)"
proof -
  have d: "describe_tool w n s = (Inr (scan_tools tools n), log (ListTools cs) s1)"
    using describe_tool_connected [OF assms(1,2)] assms(3) by simp
  have 1: "fst (describe_tool w n s) = Inr (map_option schema_entry (find (\<lambda>t. name t = n) tools))"
    by (simp add: d scan_tools_find)
  have 2: "trace (snd (describe_tool w n s)) = trace s1 @ [ListTools cs]"
    by (simp add: d log_def)
  have 3: "(\<exists>t \<in> set tools. name t = n) \<longrightarrow>
            (\<exists>t \<in> set tools. name t = n \<and> fst (describe_tool w n s) = Inr (Some (schema_entry t)) \<and>
               py_getitem (schema_entry t) ''name'' = Inr (JStr n) \<and>
               py_getitem (schema_entry t) ''inputSchema'' = Inr (inputSchema t) \<and>
               keys (schema_entry t) = [''name'', ''description'', ''inputSchema''])"
  proof
    assume "\<exists>t \<in> set tools. name t = n"
    then obtain t where t: "t \<in> set tools" "name t = n" "scan_tools tools n = Some (schema_entry t)"
      using scan_tools_some by blast
    have "py_getitem (schema_entry t) ''name'' = Inr (JStr n) \<and>
          py_getitem (schema_entry t) ''inputSchema'' = Inr (inputSchema t) \<and>
          keys (schema_entry t) = [''name'', ''description'', ''inputSchema'']"
      using t(2) by (simp add: schema_entry_def)
    with t show "\<exists>t \<in> set tools. name t = n \<and> fst (describe_tool w n s) = Inr (Some (schema_entry t)) \<and>
               py_getitem (schema_entry t) ''name'' = Inr (JStr n) \<and>
               py_getitem (schema_entry t) ''inputSchema'' = Inr (inputSchema t) \<and>
               keys (schema_entry t) = [''name'', ''description'', ''inputSchema'']"
      using d by auto
  qed
  have 4: "(\<forall>t \<in> set tools. name t \<noteq> n) \<longrightarrow> fst (describe_tool w n s) = Inr None"
    by (simp add: d scan_tools_none)
  from 1 2 3 4 show ?thesis by blast
qed

text \<open>The listing a, b: describe b gives b with its schema; c and B are not found.\<close>

theorem describe_tool_scan_witness:
  "fst (describe_tool (sample_world [tool_a, tool_b] (Inr pong) (Inr ())) ''b'' (fresh echo_config))
     = Inr (Some (JObj [(''name'', JStr ''b''), (''description'', JNull),
                        (''inputSchema'', JObj [(''type'', JStr ''string'')])])) \<and>
   fst (describe_tool (sample_world [tool_a, tool_b] (Inr pong) (Inr ())) ''c'' (fresh echo_config))
     = Inr None \<and>
   fst (describe_tool (sample_world [tool_a, tool_b] (Inr pong) (Inr ())) ''B'' (fresh echo_config))
     = Inr None"
proof -
  let ?w = "sample_world [tool_a, tool_b] (Inr pong) (Inr ())"
  let ?s1 = "snd (connect ?w (fresh echo_config))"
  have c: "lazy_connect ?w (fresh echo_config) = (Inr (), ?s1)"
    by (simp add: sample_defs)
  have s: "session ?s1 = Some (ClientSession 0 1)"
    by (simp add: sample_defs)
  have l: "session_list_tools ?w (trace ?s1) (ClientSession 0 1) = Inr [tool_a, tool_b]"
    by (simp add: sample_world_def)
  show ?thesis
    using describe_tool_scan [OF c s l, of "''b''"] describe_tool_scan [OF c s l, of "''c''"]
      describe_tool_scan [OF c s l, of "''B''"]
    by (simp add: tool_a_def tool_b_def schema_entry_def)
qed

text \<open>
  C10. When the listing holds several tools with the queried name, \<^verbatim>\<open>describe_tool\<close>
  returns the first of them in the order of the response.
\<close>

theorem describe_tool_first_match:
  assumes "lazy_connect w s = (Inr (), s1)" and "session s1 = Some cs"
    and "session_list_tools w (trace s1) cs = Inr (pre @ t # post)"
    and "\<forall>u \<in> set pre. name u \<noteq> n" and "name t = n"
  shows "fst (describe_tool w n s) = Inr (Some (schema_entry t))"
  using describe_tool_connected [OF assms(1,2), of n] assms(3) scan_tools_first [OF assms(4,5)]
  by simp

text \<open>Two tools named b: the earlier one is described.\<close>

theorem describe_tool_first_match_witness:
  "fst (describe_tool (sample_world [tool_a, tool_b, tool_b2] (Inr pong) (Inr ())) ''b''
          (fresh echo_config))
     = Inr (Some (JObj [(''name'', JStr ''b''), (''description'', JNull),
                        (''inputSchema'', JObj [(''type'', JStr ''string'')])]))"
proof -
  let ?w = "sample_world [tool_a, tool_b, tool_b2] (Inr pong) (Inr ())"
  let ?s1 = "snd (connect ?w (fresh echo_config))"
  have c: "lazy_connect ?w (fresh echo_config) = (Inr (), ?s1)"
    by (simp add: sample_defs)
  have s: "session ?s1 = Some (ClientSession 0 1)"
    by (simp add: sample_defs)
  have l: "session_list_tools ?w (trace ?s1) (ClientSession 0 1) = Inr ([tool_a] @ tool_b # [tool_b2])"
    by (simp add: sample_world_def)
  have p: "\<forall>u \<in> set [tool_a]. name u \<noteq> ''b''" by (simp add: tool_a_def)
  have q: "name tool_b = ''b''" by (simp add: tool_b_def)
  show ?thesis
    using describe_tool_first_match [OF c s l p q] by (simp add: schema_entry_def tool_b_def)
qed

subsection \<open>close\<close>

text \<open>
  C6. \<^verbatim>\<open>close\<close> never raises: in every state of the executor and whatever the
  teardown of the session does, it returns; so does a second \<^verbatim>\<open>close\<close> after it, and
  \<^verbatim>\<open>close\<close> on an executor that was never connected returns and changes nothing.
\<close>

theorem close_never_raises:
  "fst (close w s) = Inr () \<and> fst (close w (snd (close w s))) = Inr () \<and>
   fst (close w (fresh cfg)) = Inr () \<and> snd (close w (fresh cfg)) = fresh cfg"
  by (simp add: close_def fresh_def split: option.splits sum.splits)

text \<open>A server whose teardown raises: \<^verbatim>\<open>close\<close> still returns.\<close>

theorem close_never_raises_witness:
  "fst (close (sample_world [] (Inr pong) (Inl (Exn LibraryError ''peer has exited'')))
         (state_after (sample_world [] (Inr pong) (Inl (Exn LibraryError ''peer has exited'')))
            OpList (fresh echo_config))) = Inr () \<and>
   trace (snd (close (sample_world [] (Inr pong) (Inl (Exn LibraryError ''peer has exited'')))
         (state_after (sample_world [] (Inr pong) (Inl (Exn LibraryError ''peer has exited'')))
            OpList (fresh echo_config)))) =
     [Connect,
      Spawn \<lparr>command = JStr ''echo-server'', args = JList [], env = JNull\<rparr>,
      Initialize (ClientSession 0 1), ListTools (ClientSession 0 1), Aexit (ClientSession 0 1)]"
  using close_never_raises [of "sample_world [] (Inr pong) (Inl (Exn LibraryError ''peer has exited''))"
      "state_after (sample_world [] (Inr pong) (Inl (Exn LibraryError ''peer has exited''))) OpList (fresh echo_config)"]
  by (simp add: sample_defs)

subsection \<open>list_tools\<close>

text \<open>
  C7. For every listing the session returns, \<^verbatim>\<open>list_tools\<close> returns one dictionary per
  tool, in the order of the response, each holding the tool's name and description under
  the keys name and description and nothing else (no inputSchema).
\<close>

theorem list_tools_in_order:
  assumes "lazy_connect w s = (Inr (), s1)" and "session s1 = Some cs"
    and "session_list_tools w (trace s1) cs = Inr tools"
  shows "\<exists>entries. fst (list_tools w s) = Inr entries \<and>
           length entries = length tools \<and>
           (\<forall>i < length tools.
              py_getitem (entries ! i) ''name'' = Inr (JStr (name (tools ! i))) \<and>
              py_getitem (entries ! i) ''description''
                = Inr (case description (tools ! i) of None \<Rightarrow> JNull | Some d \<Rightarrow> JStr d) \<and>
              keys (entries ! i) = [''name'', ''description''])"
proof -
  have l: "fst (list_tools w s) = Inr (map list_entry tools)"
    using list_tools_connected [OF assms(1,2)] assms(3) by simp
  have "\<forall>i < length tools.
          py_getitem (map list_entry tools ! i) ''name'' = Inr (JStr (name (tools ! i))) \<and>
          py_getitem (map list_entry tools ! i) ''description''
            = Inr (case description (tools ! i) of None \<Rightarrow> JNull | Some d \<Rightarrow> JStr d) \<and>
          keys (map list_entry tools ! i) = [''name'', ''description'']"
    by (simp add: list_entry_def)
  with l show ?thesis by simp
qed

text \<open>The listing b, a, b comes back as b, a, b.\<close>

theorem list_tools_in_order_witness:
  "fst (list_tools (sample_world [tool_b, tool_a, tool_b2] (Inr pong) (Inr ())) (fresh echo_config))
     = Inr [JObj [(''name'', JStr ''b''), (''description'', JNull)],
            JObj [(''name'', JStr ''a''), (''description'', JStr ''first'')],
            JObj [(''name'', JStr ''b''), (''description'', JStr ''shadowed'')]]"
proof -
  let ?w = "sample_world [tool_b, tool_a, tool_b2] (Inr pong) (Inr ())"
  let ?s1 = "snd (connect ?w (fresh echo_config))"
  have c: "lazy_connect ?w (fresh echo_config) = (Inr (), ?s1)"
    by (simp add: sample_defs)
  have s: "session ?s1 = Some (ClientSession 0 1)"
    by (simp add: sample_defs)
  have l: "session_list_tools ?w (trace ?s1) (ClientSession 0 1) = Inr [tool_b, tool_a, tool_b2]"
    by (simp add: sample_world_def)
  from list_tools_in_order [OF c s l]
  obtain entries where e: "fst (list_tools ?w (fresh echo_config)) = Inr entries"
    by blast
  have "fst (list_tools ?w (fresh echo_config)) = Inr (map list_entry [tool_b, tool_a, tool_b2])"
    by (simp add: sample_defs)
  then show ?thesis using e
    by (simp add: list_entry_def tool_a_def tool_b_def tool_b2_def)
qed

subsection \<open>The launch parameters\<close>

text \<open>
  C8. For every configuration dictionary that has a command, \<^verbatim>\<open>connect\<close> hands the
  transport the configuration's command, its args (an empty list when the key is absent)
  and its env as they are; when env is absent or \<^verbatim>\<open>None\<close> the transport gets
  \<^verbatim>\<open>None\<close>, and it gets an empty mapping only when the configuration says so.
\<close>

theorem connect_passes_params:
  assumes "server_config s = JObj kv" and "map_of kv ''command'' = Some c"
  shows "\<exists>p rest.
           trace (snd (connect w s)) = trace s @ Connect # Spawn p # rest \<and>
           (\<forall>ev \<in> set rest. \<not> is_spawn ev) \<and>
           command p = c \<and>
           args p = (case map_of kv ''args'' of None \<Rightarrow> JList [] | Some a \<Rightarrow> a) \<and>
           env p = (case map_of kv ''env'' of None \<Rightarrow> JNull | Some e \<Rightarrow> e) \<and>
           (env p = JObj [] \<longrightarrow> map_of kv ''env'' = Some (JObj [])) \<and>
           (\<forall>e. stdio_client w (trace s @ [Connect]) p = Inl e \<longrightarrow> fst (connect w s) = Inl e)"
  using assms
  by (auto simp add: connect_def log_def Let_def split: sum.splits prod.splits option.splits)

text \<open>A configuration without env, and one with args and env.\<close>

theorem connect_passes_params_witness:
  "trace (snd (connect echo_world (fresh echo_config))) =
     [Connect, Spawn \<lparr>command = JStr ''echo-server'', args = JList [], env = JNull\<rparr>,
      Initialize (ClientSession 0 1)] \<and>
   trace (snd (connect echo_world (fresh (JObj [(''command'', JStr ''srv''),
        (''args'', JList [JStr ''-v'']), (''env'', JObj [(''HOME'', JStr ''/tmp'')])])))) =
     [Connect, Spawn \<lparr>command = JStr ''srv'', args = JList [JStr ''-v''],
         env = JObj [(''HOME'', JStr ''/tmp'')]\<rparr>,
      Initialize (ClientSession 0 1)]"
proof -
  have a: "server_config (fresh echo_config) = JObj [(''command'', JStr ''echo-server''), (''args'', JList [])]"
    by (simp add: fresh_def echo_config_def)
  have b: "map_of [(''command'', JStr ''echo-server''), (''args'', JList [])] ''command''
             = Some (JStr ''echo-server'')"
    by simp
  note k = connect_passes_params [OF a b, of echo_world]
  have "trace (snd (connect echo_world (fresh echo_config))) =
     [Connect, Spawn \<lparr>command = JStr ''echo-server'', args = JList [], env = JNull\<rparr>,
      Initialize (ClientSession 0 1)]"
    using k by (simp add: sample_defs)
  then show ?thesis by (simp add: sample_defs)
qed

subsection \<open>Exit status\<close>

text \<open>
  C9, as the code has it. For every parsed command line the exit status is 0 or 1. It is
  1 when the configuration file is missing, when the file is there and cannot be read and
  decoded (the exception leaves \<^verbatim>\<open>main\<close> and the interpreter prints its traceback),
  when the mcp package is missing, when describe finds no tool of that name, and when an
  exception is raised while list, describe or call runs (for call: while its JSON argument
  is decoded, the tool is called or the result is printed); it is 0 in every other case,
  among them the help display when no operation is selected. Whenever the status is 1
  something has been written to the diagnostic stream, and in every case except the
  undecodable file that is a message of the script's own.
\<close>

theorem exit_code_cases:
  "(fst (script h w a) = 0 \<or> fst (script h w a) = 1) \<and>
   (fst (script h w a) = 1 \<longrightarrow> stderr (snd (script h w a)) \<noteq> []) \<and>
   (\<not> config_exists h \<longrightarrow>
      fst (script h w a) = 1 \<and>
      Line (''Error: Configuration file not found: '' @ config_path h)
        \<in> set (stderr (snd (script h w a)))) \<and>
   (config_exists h \<and> config_load h = Inl e \<longrightarrow>
      fst (script h w a) = 1 \<and> Traceback e \<in> set (stderr (snd (script h w a)))) \<and>
   (config_exists h \<and> config_load h = Inr cfg \<and> \<not> has_mcp h \<longrightarrow>
      fst (script h w a) = 1 \<and>
      Line ''Error: mcp package not installed'' \<in> set (stderr (snd (script h w a)))) \<and>
   (config_exists h \<and> config_load h = Inr cfg \<and> has_mcp h \<longrightarrow>
      (arg_list a \<longrightarrow>
         (fst (script h w a) = 1) = isl (fst (list_tools w (fresh cfg))) \<and>
         (fst (list_tools w (fresh cfg)) = Inl e \<longrightarrow>
            Line (''Error: '' @ exn_str e) \<in> set (stderr (snd (script h w a))))) \<and>
      (\<not> arg_list a \<and> truthy (arg_describe a) \<longrightarrow>
         (fst (script h w a) = 0) =
           (\<exists>d. fst (describe_tool w (str_of (arg_describe a)) (fresh cfg)) = Inr (Some d)) \<and>
         (fst (describe_tool w (str_of (arg_describe a)) (fresh cfg)) = Inr None \<longrightarrow>
            Line (''Tool not found: '' @ str_of (arg_describe a))
              \<in> set (stderr (snd (script h w a)))) \<and>
         (fst (describe_tool w (str_of (arg_describe a)) (fresh cfg)) = Inl e \<longrightarrow>
            Line (''Error: '' @ exn_str e) \<in> set (stderr (snd (script h w a))))) \<and>
      (\<not> arg_list a \<and> \<not> truthy (arg_describe a) \<and> truthy (arg_call a) \<longrightarrow>
         (fst (script h w a) = 0) =
           (\<exists>call_data n arguments items.
              json_loads h (str_of (arg_call a)) = Inr call_data \<and>
              py_getitem call_data ''tool'' = Inr n \<and>
              py_get call_data ''arguments'' (JObj []) = Inr arguments \<and>
              fst (call_tool w n arguments (fresh cfg)) = Inr items \<and>
              OpaqueItem \<notin> set items)) \<and>
      (\<not> arg_list a \<and> \<not> truthy (arg_describe a) \<and> \<not> truthy (arg_call a) \<longrightarrow>
         script h w a = (0, \<lparr>stdout = [HelpText], stderr = []\<rparr>)))"
proof -
  let ?i = "\<lparr>stdout = [], stderr = []\<rparr>"
  let ?code = "fst (script h w a)"
  have ready: "?code = (case fst (try_body h w a (fresh c) ?i) of
              Returned \<Rightarrow> 0 | SysExit n \<Rightarrow> n | Raised x \<Rightarrow> 1)"
    if "config_exists h" "config_load h = Inr c" "has_mcp h" for c
    using script_ready(1) [OF that] .
  have exit1: "n = 1" if "fst (try_body h w a (fresh c) ?i) = SysExit n" for c n
    using try_body_exit [OF that] by simp
  have A: "?code = 0 \<or> ?code = 1"
  proof (cases "config_exists h")
    case False
    then show ?thesis using script_missing by blast
  next
    case True
    show ?thesis
    proof (cases "config_load h")
      case (Inl x)
      then show ?thesis using True script_unreadable by blast
    next
      case (Inr c)
      show ?thesis
      proof (cases "has_mcp h")
        case False
        then show ?thesis using True Inr script_no_mcp by blast
      next
        case mcp: True
        show ?thesis
          using ready [OF True Inr mcp] exit1 [of c]
          by (cases "fst (try_body h w a (fresh c) ?i)") auto
      qed
    qed
  qed
  have B: "?code = 1 \<longrightarrow> stderr (snd (script h w a)) \<noteq> []"
  proof (cases "config_exists h")
    case False
    then show ?thesis using script_missing [of h w a] by auto
  next
    case True
    show ?thesis
    proof (cases "config_load h")
      case (Inl x)
      then show ?thesis using True script_unreadable [of h x w a] by auto
    next
      case (Inr c)
      show ?thesis
      proof (cases "has_mcp h")
        case False
        then show ?thesis using True Inr script_no_mcp [of h c w a] by auto
      next
        case mcp: True
        show ?thesis using script_ready(2) [OF True Inr mcp] by blast
      qed
    qed
  qed
  have C: "\<not> config_exists h \<longrightarrow> ?code = 1 \<and>
      Line (''Error: Configuration file not found: '' @ config_path h)
        \<in> set (stderr (snd (script h w a)))"
    using script_missing by blast
  have D: "config_exists h \<and> config_load h = Inl e \<longrightarrow>
      ?code = 1 \<and> Traceback e \<in> set (stderr (snd (script h w a)))"
    using script_unreadable by blast
  have E: "config_exists h \<and> config_load h = Inr cfg \<and> \<not> has_mcp h \<longrightarrow>
      ?code = 1 \<and> Line ''Error: mcp package not installed'' \<in> set (stderr (snd (script h w a)))"
    using script_no_mcp by blast
  have F: "(arg_list a \<longrightarrow>
         (?code = 1) = isl (fst (list_tools w (fresh cfg))) \<and>
         (fst (list_tools w (fresh cfg)) = Inl e \<longrightarrow>
            Line (''Error: '' @ exn_str e) \<in> set (stderr (snd (script h w a))))) \<and>
      (\<not> arg_list a \<and> truthy (arg_describe a) \<longrightarrow>
         (?code = 0) =
           (\<exists>d. fst (describe_tool w (str_of (arg_describe a)) (fresh cfg)) = Inr (Some d)) \<and>
         (fst (describe_tool w (str_of (arg_describe a)) (fresh cfg)) = Inr None \<longrightarrow>
            Line (''Tool not found: '' @ str_of (arg_describe a))
              \<in> set (stderr (snd (script h w a)))) \<and>
         (fst (describe_tool w (str_of (arg_describe a)) (fresh cfg)) = Inl e \<longrightarrow>
            Line (''Error: '' @ exn_str e) \<in> set (stderr (snd (script h w a))))) \<and>
      (\<not> arg_list a \<and> \<not> truthy (arg_describe a) \<and> truthy (arg_call a) \<longrightarrow>
         (?code = 0) =
           (\<exists>call_data n arguments items.
              json_loads h (str_of (arg_call a)) = Inr call_data \<and>
              py_getitem call_data ''tool'' = Inr n \<and>
              py_get call_data ''arguments'' (JObj []) = Inr arguments \<and>
              fst (call_tool w n arguments (fresh cfg)) = Inr items \<and>
              OpaqueItem \<notin> set items)) \<and>
      (\<not> arg_list a \<and> \<not> truthy (arg_describe a) \<and> \<not> truthy (arg_call a) \<longrightarrow>
         script h w a = (0, \<lparr>stdout = [HelpText], stderr = []\<rparr>))"
    if cf: "config_exists h" "config_load h = Inr cfg" "has_mcp h"
  proof (intro conjI impI)
    note r = ready [OF cf]
    note msg = script_ready(3) [OF cf]
    note nf = script_ready(4) [OF cf]
    {
      assume l: "arg_list a"
      note tb = try_body_list [OF l, of h w "fresh cfg" ?i]
      show "(?code = 1) = isl (fst (list_tools w (fresh cfg)))"
        using r tb by (cases "fst (list_tools w (fresh cfg))") simp_all
      show "Line (''Error: '' @ exn_str e) \<in> set (stderr (snd (script h w a)))"
        if "fst (list_tools w (fresh cfg)) = Inl e"
        using msg [where e = e] tb that by simp
    }
    {
      assume d: "\<not> arg_list a \<and> truthy (arg_describe a)"
      then have tb: "fst (try_body h w a (fresh cfg) ?i) =
         (case fst (describe_tool w (str_of (arg_describe a)) (fresh cfg)) of
            Inl e \<Rightarrow> Raised e | Inr None \<Rightarrow> SysExit 1 | Inr (Some d) \<Rightarrow> Returned)"
        using try_body_describe by blast
      show "(?code = 0) =
           (\<exists>d. fst (describe_tool w (str_of (arg_describe a)) (fresh cfg)) = Inr (Some d))"
        using r tb
        by (cases "fst (describe_tool w (str_of (arg_describe a)) (fresh cfg))")
           (auto split: option.splits)
      show "Line (''Tool not found: '' @ str_of (arg_describe a))
              \<in> set (stderr (snd (script h w a)))"
        if "fst (describe_tool w (str_of (arg_describe a)) (fresh cfg)) = Inr None"
        using nf [where n = 1] tb that by simp
      show "Line (''Error: '' @ exn_str e) \<in> set (stderr (snd (script h w a)))"
        if "fst (describe_tool w (str_of (arg_describe a)) (fresh cfg)) = Inl e"
        using msg [where e = e] tb that by simp
    }
    {
      assume c: "\<not> arg_list a \<and> \<not> truthy (arg_describe a) \<and> truthy (arg_call a)"
      then have tb: "(fst (try_body h w a (fresh cfg) ?i) = Returned) =
           (\<exists>call_data n arguments items.
              json_loads h (str_of (arg_call a)) = Inr call_data \<and>
              py_getitem call_data ''tool'' = Inr n \<and>
              py_get call_data ''arguments'' (JObj []) = Inr arguments \<and>
              fst (call_tool w n arguments (fresh cfg)) = Inr items \<and>
              OpaqueItem \<notin> set items)"
        using try_body_call by blast
      have "(?code = 0) = (fst (try_body h w a (fresh cfg) ?i) = Returned)"
        using r exit1 [of cfg]
        by (cases "fst (try_body h w a (fresh cfg) ?i)") auto
      with tb show "(?code = 0) =
           (\<exists>call_data n arguments items.
              json_loads h (str_of (arg_call a)) = Inr call_data \<and>
              py_getitem call_data ''tool'' = Inr n \<and>
              py_get call_data ''arguments'' (JObj []) = Inr arguments \<and>
              fst (call_tool w n arguments (fresh cfg)) = Inr items \<and>
              OpaqueItem \<notin> set items)"
        by simp
    }
    {
      assume n: "\<not> arg_list a \<and> \<not> truthy (arg_describe a) \<and> \<not> truthy (arg_call a)"
      then have "try_body h w a (fresh cfg) ?i = (Returned, fresh cfg, out HelpText ?i)"
        using try_body_help by blast
      then show "script h w a = (0, \<lparr>stdout = [HelpText], stderr = []\<rparr>)"
        using main_ready [OF cf, of w a ?i] cf(3) by (simp add: script_def out_def)
    }
  qed
  from A B C D E F show ?thesis by blast
qed

text \<open>
  On a host with a configuration for the echo server: list and a call of ping end with
  status 0, as does the help display; describe of an unknown tool ends with status 1.
\<close>

theorem exit_code_cases_witness:
  "script (sample_host (Inr echo_config)) echo_world list_args =
     (0, \<lparr>stdout = [JsonDoc (JList [JObj [(''name'', JStr ''ping''),
                                            (''description'', JStr ''replies pong'')]])],
          stderr = []\<rparr>) \<and>
   script (sample_host (Inr echo_config)) echo_world (describe_args ''pong'') =
     (1, \<lparr>stdout = [], stderr = [Line ''Tool not found: pong'']\<rparr>) \<and>
   script (sample_host (Inr echo_config)) echo_world (call_args ping_call) =
     (0, \<lparr>stdout = [TextLine ''pong''], stderr = []\<rparr>) \<and>
   script (sample_host (Inr echo_config)) echo_world no_args =
     (0, \<lparr>stdout = [HelpText], stderr = []\<rparr>)"
proof -
  have "fst (script (sample_host (Inr echo_config)) echo_world no_args) = 0"
    using exit_code_cases [of "sample_host (Inr echo_config)" echo_world no_args _ echo_config]
    by (simp add: sample_host_def no_args_def)
  then show ?thesis
    by (simp add: script_def main_def try_body_def init_def finally_close_def sample_host_def
        list_args_def describe_args_def call_args_def no_args_def out_def err_def
        ping_call_def quoted_def list_entry_def sample_defs)
qed

text \<open>
  The configuration file is there and is not JSON; the package is installed and list is
  selected. The status is 1, and the diagnostic stream holds only the traceback of the
  decoding error.
\<close>

theorem undecodable_config_counterexample:
  "config_exists (sample_host (Inl (Exn ValueError ''Expecting value''))) \<and>
   has_mcp (sample_host (Inl (Exn ValueError ''Expecting value''))) \<and>
   arg_list list_args \<and>
   script (sample_host (Inl (Exn ValueError ''Expecting value''))) echo_world list_args =
     (1, \<lparr>stdout = [], stderr = [Traceback (Exn ValueError ''Expecting value'')]\<rparr>)"
  by (simp add: script_def main_def sample_host_def list_args_def err_def)

end
